theory Spec2Isabelle
  imports Complex_Main "HOL-Library.List_Lexorder" "HOL-Library.Product_Lexorder" "HOL-Library.Multiset"
begin

section \<open>Values, errors and the external collaborators of numerox.metrics\<close>

text \<open>
  The module works on numpy arrays and pandas tables of floats.  A float is modelled as a
  real number or the value not-a-number: an array element is a \<open>real option\<close> with
  \<open>None\<close> for NaN.  Rounding is not modelled, so every statement below is about exact
  arithmetic on the values the code combines.  A table cell is dynamically typed in the
  source (float, numpy bool, int, str, tuple), hence the datatype \<open>val\<close>; the two
  infinities are cells because a division by a zero standard deviation produces them.
\<close>

datatype error = ValueError string | KeyError string | TypeError string

datatype tourn = TInt int | TStr string

type_synonym pair = "string \<times> tourn"

datatype val =
    NaN
  | PosInf
  | NegInf
  | Float real
  | Bool bool
  | Integer int
  | Str string
  | PairV pair

type_synonym array = "real option list"

definition LOGLOSS_BENCHMARK :: real where
  "LOGLOSS_BENCHMARK = 693 / 1000"

text \<open>
  Everything the module imports from outside the file is a field of this record: the three
  scikit-learn scores (each returns a float, or raises), scipy's two-sample
  Kolmogorov-Smirnov statistic, mini-batch k-means (\<open>kmeans xs\<close> fits the model on the
  feature matrix \<open>xs\<close> and raises, or returns the \<open>predict\<close> of the fitted model, which
  on a feature matrix raises or returns one cluster label per row), the two lookup tables of
  \<open>numerox.data\<close> (a dict, so a missing key is \<open>None\<close>), and the label-set functions
  of the \<open>numerox\<close> package.
\<close>

record externals =
  log_loss :: "array \<Rightarrow> array \<Rightarrow> error + real"
  roc_auc_score :: "array \<Rightarrow> array \<Rightarrow> error + real"
  accuracy_score :: "array \<Rightarrow> array \<Rightarrow> error + real option"
  ks_2samp :: "array \<Rightarrow> array \<Rightarrow> error + real option"
  kmeans :: "real list list \<Rightarrow> error + (real list list \<Rightarrow> error + nat list)"
  tournament_str :: "tourn \<Rightarrow> error + string"
  tournament_all :: "string list"
  ERA_INT_TO_STR :: "int \<Rightarrow> string option"
  REGION_INT_TO_STR :: "int \<Rightarrow> string option"

section \<open>numpy reductions used by calc_metrics_arrays\<close>

definition observed :: "array \<Rightarrow> real list option" where
  "observed a = (if None \<in> set a then None else Some (map the a))"

definition mean :: "real list \<Rightarrow> real" where
  "mean xs = sum_list xs / real (length xs)"

text \<open>\<open>yhat.min()\<close> and \<open>yhat.max()\<close>: a zero-size array raises ValueError, a NaN propagates.\<close>

definition np_min :: "array \<Rightarrow> error + val" where
  "np_min a =
     (if a = [] then Inl (ValueError ''zero-size array to reduction operation minimum which has no identity'')
      else case observed a of
             None \<Rightarrow> Inr NaN
           | Some xs \<Rightarrow> Inr (Float (fold min (tl xs) (hd xs))))"

definition np_max :: "array \<Rightarrow> error + val" where
  "np_max a =
     (if a = [] then Inl (ValueError ''zero-size array to reduction operation maximum which has no identity'')
      else case observed a of
             None \<Rightarrow> Inr NaN
           | Some xs \<Rightarrow> Inr (Float (fold max (tl xs) (hd xs))))"

text \<open>\<open>yhat.mean()\<close>: the mean of an empty array is NaN (with a warning, not an exception).\<close>

definition np_mean :: "array \<Rightarrow> val" where
  "np_mean a =
     (if a = [] then NaN
      else case observed a of
             None \<Rightarrow> NaN
           | Some xs \<Rightarrow> Float (mean xs))"

text \<open>\<open>yhat.std()\<close>: numpy's default \<open>ddof=0\<close>, the root of the mean squared deviation.\<close>

definition np_std :: "array \<Rightarrow> val" where
  "np_std a =
     (if a = [] then NaN
      else case observed a of
             None \<Rightarrow> NaN
           | Some xs \<Rightarrow> Float (sqrt (mean (map (\<lambda>x. (x - mean xs)\<^sup>2) xs))))"

section \<open>calc_metrics_arrays\<close>

text \<open>\<open>try: m = f(y, yhat)  except ValueError: m = np.nan\<close>; any other exception propagates.\<close>

definition try_nan :: "error + val \<Rightarrow> error + val" where
  "try_nan r =
     (case r of
        Inr v \<Rightarrow> Inr v
      | Inl (ValueError m) \<Rightarrow> Inr NaN
      | Inl e \<Rightarrow> Inl e)"

definition to_val :: "real option \<Rightarrow> val" where
  "to_val x = (case x of None \<Rightarrow> NaN | Some r \<Rightarrow> Float r)"

text \<open>\<open>yh = np.zeros(yhat.size); yh[yhat >= 0.5] = 1\<close>: a NaN compares false and stays 0.\<close>

definition threshold :: "array \<Rightarrow> array" where
  "threshold yhat = map (\<lambda>p. case p of None \<Rightarrow> Some 0 | Some x \<Rightarrow> if x \<ge> 1 / 2 then Some 1 else Some 0) yhat"

text \<open>The body of the loop over \<open>columns\<close>: one statistic.\<close>

definition calc_metric :: "externals \<Rightarrow> array \<Rightarrow> array \<Rightarrow> string \<Rightarrow> error + val" where
  "calc_metric ext y yhat col =
     (if col = ''logloss'' then
        try_nan (map_sum id Float (log_loss ext y yhat))
      else if col = ''logloss_pass'' then
        try_nan (map_sum id (\<lambda>l. Bool (l < LOGLOSS_BENCHMARK)) (log_loss ext y yhat))
      else if col = ''auc'' then
        try_nan (map_sum id Float (roc_auc_score ext y yhat))
      else if col = ''acc'' then
        try_nan (map_sum id to_val (accuracy_score ext y (threshold yhat)))
      else if col = ''ymin'' then np_min yhat
      else if col = ''ymax'' then np_max yhat
      else if col = ''ymean'' then Inr (np_mean yhat)
      else if col = ''ystd'' then Inr (np_std yhat)
      else if col = ''length'' then Inr (Integer (int (length yhat)))
      else Inl (ValueError (''unknown metric ('' @ col @ '')'')))"

fun calc_metrics_arrays :: "externals \<Rightarrow> array \<Rightarrow> array \<Rightarrow> string list \<Rightarrow> error + val list" where
  "calc_metrics_arrays ext y yhat [] = Inr []"
| "calc_metrics_arrays ext y yhat (col # columns) =
     (case calc_metric ext y yhat col of
        Inl e \<Rightarrow> Inl e
      | Inr m \<Rightarrow> (case calc_metrics_arrays ext y yhat columns of
                    Inl e \<Rightarrow> Inl e
                  | Inr metrics \<Rightarrow> Inr (m # metrics)))"

section \<open>The scikit-learn scores\<close>

text \<open>
  The three scores are library routines, not code of the module.  The definitions below
  follow the library's documented behaviour on the one-dimensional arrays the module
  passes: the input validation that raises ValueError, and the value otherwise.
\<close>

definition is_label :: "real option \<Rightarrow> bool" where
  "is_label v = (case v of None \<Rightarrow> False | Some x \<Rightarrow> x = of_int \<lfloor>x\<rfloor>)"

definition np_unique :: "array \<Rightarrow> real list" where
  "np_unique y = sort (remdups (map the y))"

definition clip :: "real \<Rightarrow> real" where
  "clip p = max (1 / 10 ^ 15) (min (1 - 1 / 10 ^ 15) p)"

text \<open>
  \<open>log_loss(y_true, y_pred)\<close> with a one-dimensional \<open>y_pred\<close>: the predictions are
  checked to be finite, the labels are binarised (a continuous or empty target is
  rejected), a target with a single label is rejected, and so is one with more than two;
  otherwise the mean negative log-likelihood of the clipped probabilities, the greater
  label being the positive class.
\<close>

definition sk_log_loss :: "array \<Rightarrow> array \<Rightarrow> error + real" where
  "sk_log_loss y_true y_pred =
     (if None \<in> set y_pred then Inl (ValueError ''Input contains NaN, infinity or a value too large'')
      else if length y_true \<noteq> length y_pred then
        Inl (ValueError ''Found input variables with inconsistent numbers of samples'')
      else if y_true = [] then Inl (ValueError ''y has 0 samples'')
      else if \<not> list_all is_label y_true then Inl (ValueError ''Unknown label type'')
      else if length (np_unique y_true) = 1 then
        Inl (ValueError ''y_true contains only one label. Please provide the true labels explicitly through the labels argument.'')
      else if length (np_unique y_true) \<noteq> 2 then
        Inl (ValueError ''y_true and y_pred contain different number of classes'')
      else
        Inr (- mean (map (\<lambda>(t, p). if t = Some (last (np_unique y_true))
                                      then ln (clip (the p)) else ln (1 - clip (the p)))
                         (zip y_true y_pred))))"

text \<open>
  \<open>roc_auc_score(y_true, y_score)\<close>: defined for a binary target with both classes
  present; the area under the ROC curve is the share of (positive, negative) pairs that the
  score orders correctly, a tie counting one half.
\<close>

definition sk_roc_auc_score :: "array \<Rightarrow> array \<Rightarrow> error + real" where
  "sk_roc_auc_score y_true y_score =
     (if \<not> list_all is_label y_true then Inl (ValueError ''continuous format is not supported'')
      else if length (np_unique y_true) > 2 then Inl (ValueError ''multiclass format is not supported'')
      else if length (np_unique y_true) \<noteq> 2 then
        Inl (ValueError ''Only one class present in y_true. ROC AUC score is not defined in that case.'')
      else if length y_true \<noteq> length y_score then
        Inl (ValueError ''Found input variables with inconsistent numbers of samples'')
      else if None \<in> set y_score then Inl (ValueError ''Input contains NaN, infinity or a value too large'')
      else
        (let pos = [the s. (t, s) \<leftarrow> zip y_true y_score, t = Some (last (np_unique y_true))];
             neg = [the s. (t, s) \<leftarrow> zip y_true y_score, t \<noteq> Some (last (np_unique y_true))]
         in Inr (sum_list [if a > b then 1 else if a = b then 1 / 2 else 0. a \<leftarrow> pos, b \<leftarrow> neg]
                   / real (length pos * length neg))))"

text \<open>
  \<open>accuracy_score(y_true, y_pred)\<close>: both arguments must be label arrays (a float array
  with a NaN or a fractional value is a continuous target and is rejected); the score is the
  share of positions where the two agree, also when \<open>y_true\<close> has a single class.
\<close>

definition sk_accuracy_score :: "array \<Rightarrow> array \<Rightarrow> error + real option" where
  "sk_accuracy_score y_true y_pred =
     (if length y_true \<noteq> length y_pred then
        Inl (ValueError ''Found input variables with inconsistent numbers of samples'')
      else if \<not> list_all is_label y_true \<or> \<not> list_all is_label y_pred then
        Inl (ValueError ''Classification metrics cannot handle a mix of binary and continuous targets'')
      else if y_true = [] then Inr None
      else Inr (Some (real (length (filter (\<lambda>(t, p). t = p) (zip y_true y_pred)))
                        / real (length y_true))))"

text \<open>
  \<open>ks_2samp(data1, data2)[0]\<close>: the largest distance between the two empirical
  distribution functions, taken over the points of both samples; an empty sample is
  rejected and a NaN propagates.
\<close>

definition ecdf :: "real list \<Rightarrow> real \<Rightarrow> real" where
  "ecdf xs t = real (length (filter (\<lambda>x. x \<le> t) xs)) / real (length xs)"

definition sp_ks_2samp :: "array \<Rightarrow> array \<Rightarrow> error + real option" where
  "sp_ks_2samp data1 data2 =
     (if data1 = [] \<or> data2 = [] then Inl (ValueError ''Data passed to ks_2samp must not be empty'')
      else case (observed data1, observed data2) of
             (Some xs, Some ys) \<Rightarrow>
               Inr (Some (fold max (map (\<lambda>t. \<bar>ecdf xs t - ecdf ys t\<bar>) (xs @ ys)) 0))
           | _ \<Rightarrow> Inr None)"

text \<open>
  The label sets and lookup tables live in other modules of the package.  This instance
  has two label sets and a handful of eras and regions; it serves to evaluate the
  definitions on concrete inputs.
\<close>

definition sample_tournament_str :: "tourn \<Rightarrow> error + string" where
  "sample_tournament_str t =
     (case t of
        TInt i \<Rightarrow> (if i = 1 then Inr ''bernie'' else if i = 2 then Inr ''elizabeth''
                   else Inl (ValueError ''`tournament_int_or_str` not recognized''))
      | TStr s \<Rightarrow> (if s \<in> set [''bernie'', ''elizabeth''] then Inr s
                   else Inl (ValueError ''`tournament_int_or_str` not recognized'')))"

text \<open>
  A stand-in for the clustering: fitting needs at least as many rows as the five clusters,
  predicting needs at least one row, and the fitted model puts a row in cluster 0 or 1 by
  the sign of its first feature.
\<close>

definition sample_kmeans :: "real list list \<Rightarrow> error + (real list list \<Rightarrow> error + nat list)" where
  "sample_kmeans xs =
     (if length xs < 5 then Inl (ValueError ''n_samples should be >= n_clusters'')
      else Inr (\<lambda>m. if m = [] then Inl (ValueError ''Found array with 0 sample(s)'')
                    else Inr (map (\<lambda>x. if x = [] \<or> hd x < 0 then 0 else 1) m)))"

definition sklearn :: "externals \<Rightarrow> externals" where
  "sklearn ext = ext\<lparr>log_loss := sk_log_loss, roc_auc_score := sk_roc_auc_score,
                     accuracy_score := sk_accuracy_score\<rparr>"

definition sample_env :: externals where
  "sample_env =
     \<lparr> log_loss = sk_log_loss,
       roc_auc_score = sk_roc_auc_score,
       accuracy_score = sk_accuracy_score,
       ks_2samp = sp_ks_2samp,
       kmeans = sample_kmeans,
       tournament_str = sample_tournament_str,
       tournament_all = [''bernie'', ''elizabeth''],
       ERA_INT_TO_STR = map_of [(1, ''era1''), (2, ''era2''), (3, ''era3''), (4, ''era4'')],
       REGION_INT_TO_STR = map_of [(0, ''train''), (1, ''validation''), (2, ''test''), (3, ''live'')] \<rparr>"

section \<open>Tables\<close>

text \<open>
  A pandas DataFrame, row by row: the row labels, the column labels and one list of cells
  per row.  The dataset and the predictions have typed columns and get records of their
  own: a dataset row has its index label, era and region codes, feature vector and one
  target value per target column; a prediction row has its index label and one value per
  pair column.
\<close>

record frame =
  index :: "val list"
  columns :: "string list"
  rows :: "val list list"

record data_row =
  r_index :: string
  r_era :: int
  r_region :: int
  r_x :: "real list"
  r_targets :: array

record dataset =
  d_targets :: "string list"
  d_rows :: "data_row list"

record prediction =
  p_pairs :: "pair list"
  p_rows :: "(string \<times> array) list"

definition bind_err :: "error + 'a \<Rightarrow> ('a \<Rightarrow> error + 'b) \<Rightarrow> error + 'b" where
  "bind_err m f = (case m of Inl e \<Rightarrow> Inl e | Inr v \<Rightarrow> f v)"

text \<open>A loop that builds a list and stops at the first exception.\<close>

fun sequence_err :: "(error + 'a) list \<Rightarrow> error + 'a list" where
  "sequence_err [] = Inr []"
| "sequence_err (m # ms) =
     (case m of
        Inl e \<Rightarrow> Inl e
      | Inr v \<Rightarrow> (case sequence_err ms of Inl e \<Rightarrow> Inl e | Inr vs \<Rightarrow> Inr (v # vs)))"

fun index_of :: "'a list \<Rightarrow> 'a \<Rightarrow> nat option" where
  "index_of [] a = None"
| "index_of (x # xs) a = (if x = a then Some 0 else map_option Suc (index_of xs a))"

definition cell :: "val list \<Rightarrow> nat \<Rightarrow> val" where
  "cell r k = (if k < length r then r ! k else NaN)"

definition entry :: "array \<Rightarrow> nat \<Rightarrow> real option" where
  "entry a k = (if k < length a then a ! k else None)"

text \<open>\<open>df[name]\<close>: the cells of a column, KeyError when there is no such column.\<close>

definition column :: "frame \<Rightarrow> string \<Rightarrow> error + val list" where
  "column df name =
     (case index_of (columns df) name of
        None \<Rightarrow> Inl (KeyError name)
      | Some k \<Rightarrow> Inr (map (\<lambda>r. cell r k) (rows df)))"


text \<open>\<open>df.insert(0, name, values)\<close>: a new first column; an existing name is refused.\<close>

definition insert_first :: "string \<Rightarrow> val list \<Rightarrow> frame \<Rightarrow> error + frame" where
  "insert_first name vs df =
     (if name \<in> set (columns df) then
        Inl (ValueError (''cannot insert '' @ name @ '', already exists''))
      else Inr (df\<lparr>columns := name # columns df, rows := map (\<lambda>(v, r). v # r) (zip vs (rows df))\<rparr>))"

section \<open>add_split_pairs\<close>

text \<open>
  \<open>name, tournament = zip(*pairs)\<close>: with no pair the unpacking finds nothing and raises
  ValueError; a row label that is no tuple cannot be unzipped.
\<close>

definition as_pair :: "val \<Rightarrow> error + pair" where
  "as_pair v = (case v of PairV p \<Rightarrow> Inr p | _ \<Rightarrow> Inl (TypeError ''zip argument must support iteration''))"

definition tourn_val :: "tourn \<Rightarrow> val" where
  "tourn_val t = (case t of TInt i \<Rightarrow> Integer i | TStr s \<Rightarrow> Str s)"

definition add_split_pairs :: "externals \<Rightarrow> frame \<Rightarrow> bool \<Rightarrow> error + frame" where
  "add_split_pairs ext df as_str =
     bind_err (if ''pair'' \<in> set (columns df) then column df ''pair'' else Inr (index df)) (\<lambda>labels.
     bind_err (sequence_err (map as_pair labels)) (\<lambda>pairs.
     if pairs = [] then Inl (ValueError ''not enough values to unpack (expected 2, got 0)'')
     else
       bind_err (if as_str then sequence_err (map (\<lambda>t. map_sum id Str (tournament_str ext t)) (map snd pairs))
                 else Inr (map tourn_val (map snd pairs))) (\<lambda>tournament.
       bind_err (insert_first ''tournament'' tournament df) (\<lambda>df1.
       insert_first ''name'' (map (\<lambda>p. Str (fst p)) pairs) df1))))"

section \<open>metrics_per_era\<close>












section \<open>metrics_per_name\<close>

text \<open>
  The pandas column reductions skip NaN: \<open>mean\<close> is NaN when nothing is left, \<open>std\<close>
  (default \<open>ddof=1\<close>) is NaN when fewer than two values are left.  The mean of a column of
  booleans counts every row.  Dividing two floats follows IEEE: a NaN operand gives NaN, a
  zero divisor gives an infinity, or NaN for 0/0.
\<close>

fun present :: "array \<Rightarrow> real list" where
  "present [] = []"
| "present (None # a) = present a"
| "present (Some x # a) = x # present a"


definition pd_std :: "array \<Rightarrow> real option" where
  "pd_std a =
     (if length (present a) < 2 then None
      else Some (sqrt (sum_list (map (\<lambda>x. (x - mean (present a))\<^sup>2) (present a))
                         / real (length (present a) - 1))))"















section \<open>concordance\<close>

text \<open>Python's \<open>max\<close> of a non-empty list: a later element wins only if it compares greater.\<close>

definition py_max :: "array \<Rightarrow> real option" where
  "py_max d = fold (\<lambda>x m. case (x, m) of (Some a, Some b) \<Rightarrow> if a > b then x else m | _ \<Rightarrow> m) (tl d) (hd d)"

text \<open>
  \<open>data[region]\<close>: the rows of the dataset in the named region;
  \<open>kmeans.predict(d.x)\<close>: their cluster labels, or the exception of the library.
  \<open>prediction.df.loc[d.df.index].values\<close>: the prediction rows of these index labels, in
  their order; a label without prediction row is a KeyError.
\<close>

definition region_rows :: "externals \<Rightarrow> dataset \<Rightarrow> string \<Rightarrow> data_row list" where
  "region_rows ext data region = filter (\<lambda>r. REGION_INT_TO_STR ext (r_region r) = Some region) (d_rows data)"

definition loc_rows :: "(string \<times> array) list \<Rightarrow> string list \<Rightarrow> error + array list" where
  "loc_rows prows labels =
     sequence_err (map (\<lambda>l. case find (\<lambda>p. fst p = l) prows of
                               None \<Rightarrow> Inl (KeyError l)
                             | Some p \<Rightarrow> Inr (snd p)) labels)"

definition region_part ::
  "externals \<Rightarrow> (real list list \<Rightarrow> error + nat list) \<Rightarrow> dataset \<Rightarrow> prediction \<Rightarrow> string
     \<Rightarrow> error + (nat list \<times> array list)" where
  "region_part ext predict data prediction region =
     (let d = region_rows ext data region in
      bind_err (predict (map r_x d)) (\<lambda>cluster.
      bind_err (loc_rows (p_rows prediction) (map r_index d)) (\<lambda>yh.
      Inr (cluster, yh))))"

text \<open>\<open>yhats[r][:, i][clusters[r] == j]\<close>: column \<open>i\<close> on the rows of cluster \<open>j\<close>.\<close>

definition cluster_values :: "nat list \<times> array list \<Rightarrow> nat \<Rightarrow> nat \<Rightarrow> array" where
  "cluster_values part i j =
     map (\<lambda>cr. entry (snd cr) i) (filter (\<lambda>cr. fst cr = j) (zip (fst part) (snd part)))"

definition cluster_ks ::
  "externals \<Rightarrow> nat list \<times> array list \<Rightarrow> nat list \<times> array list \<Rightarrow> nat list \<times> array list \<Rightarrow> nat \<Rightarrow> nat
     \<Rightarrow> error + real option" where
  "cluster_ks ext part0 part1 part2 i j =
     (let yhat0 = cluster_values part0 i j;
          yhat1 = cluster_values part1 i j;
          yhat2 = cluster_values part2 i j
      in bind_err (ks_2samp ext yhat0 yhat1) (\<lambda>d01.
         bind_err (ks_2samp ext yhat0 yhat2) (\<lambda>d02.
         bind_err (ks_2samp ext yhat2 yhat1) (\<lambda>d21.
         Inr (py_max [d01, d02, d21])))))"

definition pair_concord ::
  "externals \<Rightarrow> nat list \<times> array list \<Rightarrow> nat list \<times> array list \<Rightarrow> nat list \<times> array list \<Rightarrow> nat
     \<Rightarrow> error + val" where
  "pair_concord ext part0 part1 part2 i =
     bind_err (sequence_err (map (cluster_ks ext part0 part1 part2 i) (sort (remdups (fst part0)))))
       (\<lambda>ks. Inr (np_mean ks))"

text \<open>
  \<open>df.sort_values(name)\<close>: ascending by the column, the NaN rows last.  Rows with equal
  values keep their order here; pandas' default sort does not promise an order among them.
\<close>

definition val_key :: "val \<Rightarrow> bool \<times> real" where
  "val_key v = (case v of Float x \<Rightarrow> (False, x) | _ \<Rightarrow> (True, 0))"

definition sort_values :: "frame \<Rightarrow> string \<Rightarrow> error + frame" where
  "sort_values df name =
     (case index_of (columns df) name of
        None \<Rightarrow> Inl (KeyError name)
      | Some k \<Rightarrow>
          (let ps = sort_key (\<lambda>lr. val_key (cell (snd lr) k)) (zip (index df) (rows df))
           in Inr (df\<lparr>index := map fst ps, rows := map snd ps\<rparr>)))"

definition concordance :: "externals \<Rightarrow> dataset \<Rightarrow> prediction \<Rightarrow> error + frame" where
  "concordance ext data prediction =
     (let pairs = p_pairs prediction in
      bind_err (kmeans ext (map r_x (d_rows data))) (\<lambda>predict.
      bind_err (region_part ext predict data prediction ''validation'') (\<lambda>part0.
      bind_err (region_part ext predict data prediction ''test'') (\<lambda>part1.
      bind_err (region_part ext predict data prediction ''live'') (\<lambda>part2.
      bind_err (sequence_err (map (pair_concord ext part0 part1 part2) [0..<length pairs])) (\<lambda>concords.
      sort_values \<lparr> index = map PairV pairs, columns = [''concord''], rows = map (\<lambda>c. [c]) concords \<rparr>
                  ''concord''))))))"

section \<open>A small dataset\<close>

text \<open>
  Eight rows in four eras and three regions (1 validation, 2 test, 3 live), with targets
  for the validation rows only, and predictions of two pairs; the second prediction table
  leaves one value unobserved.  They serve to evaluate the functions on concrete inputs.
\<close>

definition sample_data :: dataset where
  "sample_data =
     \<lparr> d_targets = [''bernie'', ''elizabeth''],
       d_rows =
         [\<lparr>r_index = ''a'', r_era = 1, r_region = 1, r_x = [-1], r_targets = [Some 0, Some 1]\<rparr>,
          \<lparr>r_index = ''b'', r_era = 1, r_region = 1, r_x = [1], r_targets = [Some 1, Some 0]\<rparr>,
          \<lparr>r_index = ''c'', r_era = 2, r_region = 1, r_x = [-1], r_targets = [Some 1, Some 0]\<rparr>,
          \<lparr>r_index = ''d'', r_era = 2, r_region = 1, r_x = [1], r_targets = [Some 0, Some 1]\<rparr>,
          \<lparr>r_index = ''e'', r_era = 3, r_region = 2, r_x = [-1], r_targets = [None, None]\<rparr>,
          \<lparr>r_index = ''f'', r_era = 3, r_region = 2, r_x = [1], r_targets = [None, None]\<rparr>,
          \<lparr>r_index = ''g'', r_era = 4, r_region = 3, r_x = [-1], r_targets = [None, None]\<rparr>,
          \<lparr>r_index = ''h'', r_era = 4, r_region = 3, r_x = [1], r_targets = [None, None]\<rparr>] \<rparr>"

definition sample_prediction :: prediction where
  "sample_prediction =
     \<lparr> p_pairs = [(''n'', TInt 2), (''m'', TInt 1)],
       p_rows =
         [(''a'', [Some (1 / 4), Some (1 / 4)]),
          (''b'', [Some (1 / 2), Some (3 / 4)]),
          (''c'', [Some (3 / 4), Some (1 / 4)]),
          (''d'', [Some (1 / 4), Some (3 / 4)]),
          (''e'', [Some (1 / 2), Some (1 / 4)]),
          (''f'', [Some (1 / 2), Some (3 / 4)]),
          (''g'', [Some (1 / 4), Some (1 / 4)]),
          (''h'', [Some (1 / 2), Some (3 / 4)])] \<rparr>"


section \<open>Properties of calc_metrics_arrays\<close>

lemma observed_map_Some: "observed (map Some xs) = Some xs"
  by (auto simp: observed_def comp_def)

lemma fold_min_Min: "xs \<noteq> [] \<Longrightarrow> fold min (tl xs) (hd xs) = Min (set xs)"
proof (cases xs)
  case (Cons a l)
  show ?thesis unfolding Cons list.sel by (rule Min.set_eq_fold [symmetric])
qed simp

lemma fold_max_Max: "xs \<noteq> [] \<Longrightarrow> fold max (tl xs) (hd xs) = Max (set xs)"
proof (cases xs)
  case (Cons a l)
  show ?thesis unfolding Cons list.sel by (rule Max.set_eq_fold [symmetric])
qed simp

lemma remdups_replicate_same: "remdups (replicate n x) = (if n = 0 then [] else [x])"
  by (induction n) auto

lemma np_unique_single:
  "y \<noteq> [] \<Longrightarrow> list_all (\<lambda>v. v = Some c) y \<Longrightarrow> np_unique y = [c]"
proof -
  assume a: "y \<noteq> []" "list_all (\<lambda>v. v = Some c) y"
  then have "y = replicate (length y) (Some c)"
    by (metis (mono_tags, lifting) list_all_iff replicate_length_same)
  then have "map the y = replicate (length y) c"
    by (metis map_replicate option.sel)
  with a(1) show ?thesis
    by (simp add: np_unique_def remdups_replicate_same)
qed

lemma list_all_is_label_single:
  "list_all (\<lambda>v. v = Some c) y \<Longrightarrow> c = 0 \<or> c = 1 \<Longrightarrow> list_all is_label y"
  by (auto simp: list_all_iff is_label_def)

lemma list_all_is_label_threshold: "list_all is_label (threshold yhat)"
  by (auto simp: list_all_iff is_label_def threshold_def split: option.splits)

lemma matches_single:
  "length yhat = length y \<Longrightarrow> list_all (\<lambda>v. v = Some c) y \<Longrightarrow>
   length (filter (\<lambda>(t, p). t = p) (zip y yhat)) = length (filter (\<lambda>p. p = Some c) yhat)"
proof (induction y arbitrary: yhat)
  case Nil then show ?case by simp
next
  case (Cons a y)
  then show ?case by (cases yhat) auto
qed


lemma single_class_log_loss:
  assumes "y \<noteq> []" "list_all (\<lambda>v. v = Some c) y"
  shows "\<exists>m. sk_log_loss y yhat = Inl (ValueError m)"
  using assms by (simp add: sk_log_loss_def np_unique_single)

lemma single_class_roc_auc:
  assumes "y \<noteq> []" "list_all (\<lambda>v. v = Some c) y"
  shows "\<exists>m. sk_roc_auc_score y yhat = Inl (ValueError m)"
  using assms by (simp add: sk_roc_auc_score_def np_unique_single)

lemma single_class_accuracy:
  assumes "y \<noteq> []" "list_all (\<lambda>v. v = Some c) y" "c = 0 \<or> c = 1" "length yhat = length y"
  shows "sk_accuracy_score y (threshold yhat) =
         Inr (Some (real (length (filter (\<lambda>p. p = Some c) (threshold yhat))) / real (length y)))"
proof -
  have "length (threshold yhat) = length y"
    using assms(4) by (simp add: threshold_def)
  then show ?thesis
    using assms
    by (simp add: sk_accuracy_score_def list_all_is_label_single list_all_is_label_threshold
        matches_single)
qed

lemma calc_logloss_single:
  assumes "y \<noteq> []" "list_all (\<lambda>v. v = Some c) y"
  shows "calc_metric (sklearn ext) y yhat ''logloss'' = Inr NaN"
  using single_class_log_loss [OF assms, of yhat]
  by (auto simp: calc_metric_def sklearn_def try_nan_def)

lemma calc_auc_single:
  assumes "y \<noteq> []" "list_all (\<lambda>v. v = Some c) y"
  shows "calc_metric (sklearn ext) y yhat ''auc'' = Inr NaN"
  using single_class_roc_auc [OF assms, of yhat]
  by (auto simp: calc_metric_def sklearn_def try_nan_def)

lemma calc_acc_single:
  assumes "y \<noteq> []" "list_all (\<lambda>v. v = Some c) y" "c = 0 \<or> c = 1" "length yhat = length y"
  shows "calc_metric (sklearn ext) y yhat ''acc'' =
         Inr (Float (real (length (filter (\<lambda>p. p = Some c) (threshold yhat))) / real (length y)))"
  using single_class_accuracy [OF assms]
  by (simp add: calc_metric_def sklearn_def try_nan_def to_val_def)

lemma calc_ymin_observed:
  "xs \<noteq> [] \<Longrightarrow> calc_metric ext y (map Some xs) ''ymin'' = Inr (Float (Min (set xs)))"
  by (simp add: calc_metric_def np_min_def observed_map_Some fold_min_Min)

lemma calc_ymax_observed:
  "xs \<noteq> [] \<Longrightarrow> calc_metric ext y (map Some xs) ''ymax'' = Inr (Float (Max (set xs)))"
  by (simp add: calc_metric_def np_max_def observed_map_Some fold_max_Max)

lemma calc_ymean_observed:
  "xs \<noteq> [] \<Longrightarrow> calc_metric ext y (map Some xs) ''ymean'' = Inr (Float (sum_list xs / real (length xs)))"
  by (simp add: calc_metric_def np_mean_def observed_map_Some mean_def)

lemma calc_ystd_observed:
  "xs \<noteq> [] \<Longrightarrow> calc_metric ext y (map Some xs) ''ystd'' =
     Inr (Float (sqrt ((\<Sum>x\<leftarrow>xs. (x - sum_list xs / real (length xs))\<^sup>2) / real (length xs))))"
  by (simp add: calc_metric_def np_std_def observed_map_Some mean_def)

lemma calc_length: "calc_metric ext y yhat ''length'' = Inr (Integer (int (length yhat)))"
  by (simp add: calc_metric_def)

text \<open>
  Claim C2, as the code has it.  For a group whose ground truth holds a single class
  (0 or 1), \<open>logloss\<close> and \<open>auc\<close> resolve to NaN without raising, and \<open>ymin\<close>,
  \<open>ymax\<close>, \<open>ymean\<close>, \<open>ystd\<close> and \<open>length\<close> are computed from yhat alone.  The
  accuracy is not NaN: it is the share of thresholded predictions that equal the class.
\<close>

theorem single_class_metrics:
  assumes "y \<noteq> []" and "list_all (\<lambda>v. v = Some c) y" and "c = 0 \<or> c = 1"
    and "length xs = length y"
  shows "calc_metrics_arrays (sklearn ext) y (map Some xs)
           [''logloss'', ''auc'', ''acc'', ''ymin'', ''ymax'', ''ymean'', ''ystd'', ''length''] =
         Inr [NaN, NaN,
              Float (real (length (filter (\<lambda>p. p = Some c) (threshold (map Some xs)))) / real (length y)),
              Float (Min (set xs)), Float (Max (set xs)),
              Float (sum_list xs / real (length xs)),
              Float (sqrt ((\<Sum>x\<leftarrow>xs. (x - sum_list xs / real (length xs))\<^sup>2) / real (length xs))),
              Integer (int (length y))]"
proof -
  have ne: "xs \<noteq> []" using assms(1,4) by auto
  have len: "length (map Some xs) = length y" using assms(4) by simp
  show ?thesis
    by (simp add: calc_logloss_single [OF assms(1,2)] calc_auc_single [OF assms(1,2)]
        calc_acc_single [OF assms(1,2,3) len] calc_ymin_observed [OF ne] calc_ymax_observed [OF ne]
        calc_ymean_observed [OF ne] calc_ystd_observed [OF ne] calc_length assms(4))
qed

theorem single_class_metrics_witness:
  "calc_metrics_arrays (sklearn sample_env) [Some 0, Some 0, Some 0, Some 0]
      [Some (2 / 10), Some (6 / 10), Some (3 / 10), Some (4 / 10)]
      [''logloss'', ''auc'', ''acc'', ''ymin'', ''ymax'', ''ymean'', ''ystd'', ''length''] =
   Inr [NaN, NaN, Float (3 / 4), Float (2 / 10), Float (6 / 10), Float (3 / 8),
        Float (sqrt (((2 / 10 - 3 / 8)\<^sup>2 + (6 / 10 - 3 / 8)\<^sup>2 + (3 / 10 - 3 / 8)\<^sup>2 + (4 / 10 - 3 / 8)\<^sup>2) / 4)),
        Integer 4]"
  using single_class_metrics [of "[Some 0, Some 0, Some 0, Some 0]" 0 "[2 / 10, 6 / 10, 3 / 10, 4 / 10]" sample_env]
  by (simp add: threshold_def)


text \<open>
  Claim C2 as stated fails on \<open>acc\<close>: with y = [0, 0, 0, 0] and three predictions below
  0.5 the accuracy is 3/4, not NaN.
\<close>

theorem single_class_acc_counterexample:
  "calc_metrics_arrays sample_env [Some 0, Some 0, Some 0, Some 0]
      [Some (2 / 10), Some (6 / 10), Some (3 / 10), Some (4 / 10)] [''logloss'', ''auc'', ''acc''] =
   Inr [NaN, NaN, Float (3 / 4)]"
  by (simp add: calc_metric_def sample_env_def sk_log_loss_def sk_roc_auc_score_def
      sk_accuracy_score_def is_label_def np_unique_def try_nan_def threshold_def to_val_def)

text \<open>
  Claim C4.  For any log-loss routine, the \<open>logloss_pass\<close> cell of a group is the strict
  comparison of the group's log-loss with 0.693, and it is NaN exactly when the
  \<open>logloss\<close> cell is NaN (the routine raised ValueError).  A log-loss of exactly 0.693
  does not pass.
\<close>

theorem logloss_pass_strict:
  "calc_metrics_arrays ext y yhat [''logloss'', ''logloss_pass''] =
     (case log_loss ext y yhat of
        Inr l \<Rightarrow> Inr [Float l, Bool (l < 693 / 1000)]
      | Inl (ValueError m) \<Rightarrow> Inr [NaN, NaN]
      | Inl e \<Rightarrow> Inl e)
   \<and> calc_metrics_arrays (ext\<lparr>log_loss := \<lambda>y yhat. Inr (693 / 1000)\<rparr>) y yhat [''logloss'', ''logloss_pass'']
       = Inr [Float (693 / 1000), Bool False]"
  by (simp add: calc_metric_def try_nan_def LOGLOSS_BENCHMARK_def split: sum.splits error.splits)

theorem logloss_pass_strict_witness:
  "calc_metrics_arrays sample_env [Some 0, Some 0] [Some (1 / 5), Some (4 / 5)] [''logloss'', ''logloss_pass'']
     = Inr [NaN, NaN]
   \<and> calc_metrics_arrays (sample_env\<lparr>log_loss := \<lambda>y yhat. Inr (693 / 1000)\<rparr>) [Some 0, Some 1]
        [Some (1 / 5), Some (4 / 5)] [''logloss'', ''logloss_pass'']
       = Inr [Float (693 / 1000), Bool False]"
  using logloss_pass_strict [of sample_env "[Some 0, Some 0]" "[Some (1 / 5), Some (4 / 5)]"]
    logloss_pass_strict [of sample_env "[Some 0, Some 1]" "[Some (1 / 5), Some (4 / 5)]"]
  by (simp add: sample_env_def sk_log_loss_def np_unique_def is_label_def)

text \<open>
  Claim C10 as stated fails on an array that holds a NaN: the \<open>ystd\<close> of the length-1
  array [NaN] is NaN, not 0.
\<close>

theorem ystd_nan_counterexample:
  "calc_metrics_arrays sample_env [Some 0] [None] [''ystd''] = Inr [NaN]"
  by (simp add: calc_metric_def np_std_def observed_def)

text \<open>
  Claim C10, amended.  For every yhat array without NaN, \<open>ystd\<close> is the population
  standard deviation (divisor n); the \<open>ystd\<close> of a length-1 array with an observed value
  is 0, where the sample standard deviation used for \<open>sharpe\<close> is NaN; a NaN in yhat makes
  \<open>ystd\<close> NaN.
\<close>

theorem ystd_population:
  "(xs \<noteq> [] \<longrightarrow>
      calc_metrics_arrays ext y (map Some xs) [''ystd''] =
        Inr [Float (sqrt (sum_list (map (\<lambda>x. (x - mean xs)\<^sup>2) xs) / real (length xs)))])
   \<and> calc_metrics_arrays ext y [Some x] [''ystd''] = Inr [Float 0]
   \<and> (None \<in> set yhat \<longrightarrow> calc_metrics_arrays ext y yhat [''ystd''] = Inr [NaN])
   \<and> pd_std [Some x] = None"
proof -
  have a: "xs \<noteq> [] \<Longrightarrow> calc_metrics_arrays ext y (map Some xs) [''ystd''] =
        Inr [Float (sqrt (sum_list (map (\<lambda>x. (x - mean xs)\<^sup>2) xs) / real (length xs)))]"
    by (simp add: calc_metric_def np_std_def observed_map_Some mean_def)
  have b: "calc_metrics_arrays ext y [Some x] [''ystd''] = Inr [Float 0]"
    by (simp add: calc_metric_def np_std_def observed_def mean_def)
  have c: "None \<in> set yhat \<Longrightarrow> calc_metrics_arrays ext y yhat [''ystd''] = Inr [NaN]"
    by (auto simp: calc_metric_def np_std_def observed_def)
  have d: "pd_std [Some x] = None"
    by (simp add: pd_std_def)
  from a b c d show ?thesis by blast
qed

theorem ystd_population_witness:
  "calc_metrics_arrays sample_env [Some 0, Some 1] [Some 1, Some 3] [''ystd''] = Inr [Float 1]
   \<and> calc_metrics_arrays sample_env [Some 1] [Some (2 / 5)] [''ystd''] = Inr [Float 0]
   \<and> calc_metrics_arrays sample_env [Some 0, Some 1] [Some 1, None] [''ystd''] = Inr [NaN]
   \<and> pd_std [Some (2 / 5)] = None"
  using ystd_population [of "[1, 3]" sample_env "[Some 0, Some 1]" "2 / 5" "[Some 1, None]"]
    ystd_population [of "[1, 3]" sample_env "[Some 1]" "2 / 5" "[Some 1, None]"]
  by (simp add: mean_def)

section \<open>Properties of add_split_pairs\<close>

lemma sequence_err_map_Inr: "sequence_err (map Inr xs) = Inr xs"
  by (induction xs) auto

lemma sequence_err_Inr_D: "sequence_err ms = Inr vs \<Longrightarrow> ms = map Inr vs"
proof (induction ms arbitrary: vs)
  case Nil
  then show ?case by simp
next
  case (Cons m ms)
  then show ?case by (auto split: sum.splits)
qed

lemma sequence_err_Inr_iff: "sequence_err ms = Inr vs \<longleftrightarrow> ms = map Inr vs"
  using sequence_err_Inr_D sequence_err_map_Inr by blast


lemma cons_rows_cell0:
  "length vs = length rs \<Longrightarrow> map (\<lambda>r. cell r 0) (map (\<lambda>(v, r). v # r) (zip vs rs)) = vs"
  by (induction vs rs rule: list_induct2) (auto simp: cell_def)

lemma cons_rows_cell_Suc:
  "length vs = length rs \<Longrightarrow>
   map (\<lambda>r. cell r (Suc k)) (map (\<lambda>(v, r). v # r) (zip vs rs)) = map (\<lambda>r. cell r k) rs"
  by (induction vs rs rule: list_induct2) (auto simp: cell_def)

lemma cons_rows_tl:
  "length vs = length rs \<Longrightarrow> map tl (map (\<lambda>(v, r). v # r) (zip vs rs)) = rs"
  by (induction vs rs rule: list_induct2) auto

lemma drop2_tl: "drop 2 = (\<lambda>r. tl (tl r))"
  by (rule ext) (simp add: drop_Suc numeral_2_eq_2)

text \<open>
  Claim C7 as stated fails with the default \<open>as_str=True\<close>: the pair (m, 1) comes back
  as name m and tournament bernie, the string name of label set 1 and not the label set of
  the pair.
\<close>

theorem split_pairs_render_counterexample:
  "add_split_pairs sample_env
     \<lparr>index = [PairV (''m'', TInt 1)], columns = [''logloss''], rows = [[Float (1 / 2)]]\<rparr> True =
   Inr \<lparr>index = [PairV (''m'', TInt 1)], columns = [''name'', ''tournament'', ''logloss''],
        rows = [[Str ''m'', Str ''bernie'', Float (1 / 2)]]\<rparr>"
  by (simp add: add_split_pairs_def bind_err_def as_pair_def sample_env_def sample_tournament_str_def
      insert_first_def)

text \<open>
  Claim C7, amended.  For a table with at least one row whose rows are identified by
  pairs (in a \<open>pair\<close> column, or else in the index) and that has no column \<open>name\<close> or
  \<open>tournament\<close> yet, \<open>add_split_pairs\<close> returns the table with \<open>name\<close> and
  \<open>tournament\<close> inserted as the first two columns and the other columns unchanged.  The
  name column holds the names of the pairs in their order.  The tournament column holds,
  in the same order, the label sets of the pairs when \<open>as_str\<close> is false, so that zipping
  the two columns gives back the pair list; with \<open>as_str\<close> true it holds their string
  names as \<open>tournament_str\<close> renders them.
\<close>

theorem add_split_pairs_columns:
  assumes labels: "(if ''pair'' \<in> set (columns df) then column df ''pair'' else Inr (index df))
                     = Inr (map PairV pairs)"
    and ne: "pairs \<noteq> []"
    and fresh: "''name'' \<notin> set (columns df)" "''tournament'' \<notin> set (columns df)"
    and len: "length (rows df) = length pairs"
    and names: "as_str \<Longrightarrow> map (\<lambda>p. tournament_str ext (snd p)) pairs = map Inr names"
    and tournament: "tournament = (if as_str then map Str names else map (\<lambda>p. tourn_val (snd p)) pairs)"
  shows "\<exists>df'. add_split_pairs ext df as_str = Inr df'
           \<and> index df' = index df
           \<and> columns df' = ''name'' # ''tournament'' # columns df
           \<and> column df' ''name'' = Inr (map (\<lambda>p. Str (fst p)) pairs)
           \<and> column df' ''tournament'' = Inr tournament
           \<and> map (drop 2) (rows df') = rows df"
proof -
  have seq: "sequence_err (map as_pair (map PairV pairs)) = Inr pairs"
    by (simp add: comp_def as_pair_def sequence_err_map_Inr [unfolded map_map comp_def])
  have tcol: "(if as_str then sequence_err (map (\<lambda>t. map_sum id Str (tournament_str ext t)) (map snd pairs))
               else Inr (map tourn_val (map snd pairs))) = Inr tournament"
  proof (cases as_str)
    case True
    have "map (\<lambda>t. map_sum id Str (tournament_str ext t)) (map snd pairs)
            = map (map_sum id Str) (map (\<lambda>p. tournament_str ext (snd p)) pairs)"
      by (simp add: comp_def)
    also have "\<dots> = map Inr (map Str names)"
      by (simp add: names [OF True] comp_def)
    finally have "sequence_err (map (\<lambda>t. map_sum id Str (tournament_str ext t)) (map snd pairs))
                    = Inr (map Str names)"
      by (simp only: sequence_err_map_Inr)
    then show ?thesis using True tournament by simp
  next
    case False
    then show ?thesis using tournament by (simp add: comp_def)
  qed
  have lt: "length tournament = length pairs"
  proof (cases as_str)
    case True
    from names [OF True] have "length names = length pairs" by (metis length_map)
    then show ?thesis using True tournament by simp
  next
    case False
    then show ?thesis using tournament by simp
  qed
  define df' where "df' = df\<lparr>columns := ''name'' # ''tournament'' # columns df,
      rows := map (\<lambda>(v, r). v # r) (zip (map (\<lambda>p. Str (fst p)) pairs)
                (map (\<lambda>(v, r). v # r) (zip tournament (rows df))))\<rparr>"
  have run: "add_split_pairs ext df as_str = Inr df'"
    unfolding add_split_pairs_def labels bind_err_def sum.case seq tcol
    using ne fresh by (simp add: insert_first_def df'_def)
  let ?inner = "map (\<lambda>(v, r). v # r) (zip tournament (rows df))"
  have li: "length (map (\<lambda>p. Str (fst p)) pairs) = length ?inner"
    using len lt by simp
  have lt': "length tournament = length (rows df)"
    using len lt by simp
  have c0: "column df' ''name'' = Inr (map (\<lambda>p. Str (fst p)) pairs)"
    by (simp add: column_def df'_def cons_rows_cell0 [OF li] del: map_map)
  have c1: "column df' ''tournament'' = Inr tournament"
    by (simp add: column_def df'_def cons_rows_cell_Suc [OF li] cons_rows_cell0 [OF lt'] del: map_map)
  have "map tl (map tl (rows df')) = rows df"
    by (simp add: df'_def cons_rows_tl [OF li] cons_rows_tl [OF lt'] del: map_map)
  then have rest: "map (drop 2) (rows df') = rows df"
    by (simp add: comp_def drop2_tl)
  show ?thesis
    using run c0 c1 rest by (simp add: df'_def)
qed


theorem add_split_pairs_columns_witness:
  "(\<exists>df'. add_split_pairs sample_env
            \<lparr>index = [PairV (''n'', TInt 2), PairV (''m'', TInt 1)], columns = [''logloss''],
             rows = [[Float (1 / 2)], [NaN]]\<rparr> True = Inr df'
          \<and> index df' = [PairV (''n'', TInt 2), PairV (''m'', TInt 1)]
          \<and> columns df' = [''name'', ''tournament'', ''logloss'']
          \<and> column df' ''name'' = Inr [Str ''n'', Str ''m'']
          \<and> column df' ''tournament'' = Inr [Str ''elizabeth'', Str ''bernie'']
          \<and> map (drop 2) (rows df') = [[Float (1 / 2)], [NaN]])
   \<and> (\<exists>df'. add_split_pairs sample_env
            \<lparr>index = [Integer 0], columns = [''era'', ''pair''],
             rows = [[Integer 1, PairV (''m'', TInt 1)]]\<rparr> False = Inr df'
          \<and> index df' = [Integer 0]
          \<and> columns df' = [''name'', ''tournament'', ''era'', ''pair'']
          \<and> column df' ''name'' = Inr [Str ''m'']
          \<and> column df' ''tournament'' = Inr [Integer 1]
          \<and> map (drop 2) (rows df') = [[Integer 1, PairV (''m'', TInt 1)]])"
proof -
  let ?f1 = "\<lparr>index = [PairV (''n'', TInt 2), PairV (''m'', TInt 1)], columns = [''logloss''],
             rows = [[Float (1 / 2)], [NaN]]\<rparr>"
  let ?f2 = "\<lparr>index = [Integer 0], columns = [''era'', ''pair''],
             rows = [[Integer 1, PairV (''m'', TInt 1)]]\<rparr>"
  have l1: "(if ''pair'' \<in> set (columns ?f1) then column ?f1 ''pair'' else Inr (index ?f1))
              = Inr (map PairV [(''n'', TInt 2), (''m'', TInt 1)])"
    by simp
  have l2: "(if ''pair'' \<in> set (columns ?f2) then column ?f2 ''pair'' else Inr (index ?f2))
              = Inr (map PairV [(''m'', TInt 1)])"
    by (simp add: column_def cell_def)
  show ?thesis
    using add_split_pairs_columns [OF l1, of True sample_env "[''elizabeth'', ''bernie'']"
        "[Str ''elizabeth'', Str ''bernie'']"]
      add_split_pairs_columns [OF l2, of False sample_env "[]" "[Integer 1]"]
    by (simp add: sample_env_def sample_tournament_str_def tourn_val_def)
qed

section \<open>Properties of metrics_per_name\<close>

lemma bind_err_Inr_iff: "bind_err m f = Inr r \<longleftrightarrow> (\<exists>v. m = Inr v \<and> f v = Inr r)"
  by (cases m) (simp_all add: bind_err_def)
































section \<open>Invalid arguments\<close>























section \<open>Dropping unobserved predictions\<close>







section \<open>Properties of concordance\<close>

lemmas conc_defs = concordance_def region_part_def region_rows_def loc_rows_def bind_err_def
  sample_kmeans_def
  pair_concord_def cluster_ks_def cluster_values_def py_max_def sort_values_def val_key_def cell_def entry_def
  sample_env_def sample_data_def sample_prediction_def sp_ks_2samp_def ecdf_def observed_def
  np_mean_def mean_def Let_def

lemma sample_concordance:
  "concordance sample_env sample_data sample_prediction =
     Inr \<lparr>index = [PairV (''m'', TInt 1), PairV (''n'', TInt 2)], columns = [''concord''],
          rows = [[Float 0], [Float (3 / 4)]]\<rparr>"
  by (simp add: conc_defs less_eq_prod_def less_prod_def)


lemma np_mean_cases: "np_mean a = NaN \<or> (\<exists>x. np_mean a = Float x)"
  by (simp add: np_mean_def split: option.splits)

lemma pair_concord_cases:
  "pair_concord ext p0 p1 p2 i = Inr c \<Longrightarrow> c = NaN \<or> (\<exists>x. c = Float x)"
  using np_mean_cases by (auto simp: pair_concord_def bind_err_Inr_iff)

lemma sort_values_D:
  assumes "sort_values df name = Inr fr" and "length (index df) = length (rows df)"
  shows "\<exists>k. index_of (columns df) name = Some k
           \<and> columns fr = columns df
           \<and> mset (zip (index fr) (rows fr)) = mset (zip (index df) (rows df))
           \<and> length (index fr) = length (rows df) \<and> length (rows fr) = length (rows df)
           \<and> sorted (map (\<lambda>r. val_key (cell r k)) (rows fr))"
proof -
  from assms(1) obtain k where k: "index_of (columns df) name = Some k"
    by (auto simp: sort_values_def split: option.splits)
  let ?ps = "sort_key (\<lambda>lr. val_key (cell (snd lr) k)) (zip (index df) (rows df))"
  from assms(1) k have fr: "fr = df\<lparr>index := map fst ?ps, rows := map snd ?ps\<rparr>"
    by (simp add: sort_values_def Let_def)
  have m: "mset (zip (index fr) (rows fr)) = mset (zip (index df) (rows df))"
    by (simp add: fr zip_map_fst_snd)
  have l: "length ?ps = length (rows df)" using assms(2) by simp
  have "sorted (map (\<lambda>lr. val_key (cell (snd lr) k)) ?ps)" by (rule sorted_sort_key)
  then have s: "sorted (map (\<lambda>r. val_key (cell r k)) (rows fr))"
    by (simp add: fr comp_def)
  show ?thesis using k m l s by (auto simp: fr)
qed

lemma concordance_D:
  assumes "concordance ext data pred = Inr fr"
  shows "\<exists>predict part0 part1 part2 concords.
           kmeans ext (map r_x (d_rows data)) = Inr predict
         \<and> region_part ext predict data pred ''validation'' = Inr part0
         \<and> region_part ext predict data pred ''test'' = Inr part1
         \<and> region_part ext predict data pred ''live'' = Inr part2
         \<and> map (pair_concord ext part0 part1 part2) [0..<length (p_pairs pred)] = map Inr concords
         \<and> sort_values \<lparr>index = map PairV (p_pairs pred), columns = [''concord''],
                          rows = map (\<lambda>c. [c]) concords\<rparr> ''concord'' = Inr fr"
  using assms
  by (auto simp: concordance_def Let_def bind_err_Inr_iff sequence_err_Inr_iff)

text \<open>
  Claim C8.  When \<open>concordance\<close> returns, the table has the single column \<open>concord\<close>
  and one row per pair; its rows are the pairs with their scores, each score the mean over
  the clusters of the largest of the three Kolmogorov-Smirnov distances, a float or NaN
  and never a thresholded value; and the rows are in ascending order of the score, the
  NaN scores last.
\<close>

theorem concordance_table:
  "concordance ext data pred = Inr fr \<longrightarrow>
     columns fr = [''concord'']
   \<and> length (rows fr) = length (p_pairs pred)
   \<and> mset (index fr) = mset (map PairV (p_pairs pred))
   \<and> (\<exists>predict part0 part1 part2 concords.
         kmeans ext (map r_x (d_rows data)) = Inr predict
       \<and> region_part ext predict data pred ''validation'' = Inr part0
       \<and> region_part ext predict data pred ''test'' = Inr part1
       \<and> region_part ext predict data pred ''live'' = Inr part2
       \<and> map (pair_concord ext part0 part1 part2) [0..<length (p_pairs pred)] = map Inr concords
       \<and> mset (zip (index fr) (rows fr)) = mset (zip (map PairV (p_pairs pred)) (map (\<lambda>c. [c]) concords)))
   \<and> (\<forall>r \<in> set (rows fr). \<exists>c. r = [c] \<and> (c = NaN \<or> (\<exists>x. c = Float x)))
   \<and> (\<forall>i j x y. i < j \<and> j < length (rows fr) \<and> rows fr ! i = [Float x] \<and> rows fr ! j = [Float y] \<longrightarrow> x \<le> y)
   \<and> (\<forall>i j. i < j \<and> j < length (rows fr) \<and> rows fr ! i = [NaN] \<longrightarrow> rows fr ! j = [NaN])"
proof
  assume run: "concordance ext data pred = Inr fr"
  let ?n = "length (p_pairs pred)"
  from concordance_D [OF run] obtain predict part0 part1 part2 concords where
    km: "kmeans ext (map r_x (d_rows data)) = Inr predict"
    and p0: "region_part ext predict data pred ''validation'' = Inr part0"
    and p1: "region_part ext predict data pred ''test'' = Inr part1"
    and p2: "region_part ext predict data pred ''live'' = Inr part2"
    and cs: "map (pair_concord ext part0 part1 part2) [0..<?n] = map Inr concords"
    and sv: "sort_values \<lparr>index = map PairV (p_pairs pred), columns = [''concord''],
                          rows = map (\<lambda>c. [c]) concords\<rparr> ''concord'' = Inr fr"
    by blast
  let ?F = "\<lparr>index = map PairV (p_pairs pred), columns = [''concord''], rows = map (\<lambda>c. [c]) concords\<rparr>"
  have "length (map (pair_concord ext part0 part1 part2) [0..<?n]) = length (map Inr concords)"
    using cs by simp
  then have lc: "length concords = ?n" by simp
  then have lF: "length (index ?F) = length (rows ?F)" by simp
  from sort_values_D [OF sv lF] obtain k where
    k: "index_of (columns ?F) ''concord'' = Some k"
    and col: "columns fr = columns ?F"
    and ms: "mset (zip (index fr) (rows fr)) = mset (zip (index ?F) (rows ?F))"
    and li: "length (index fr) = length (rows ?F)"
    and lr: "length (rows fr) = length (rows ?F)"
    and so: "sorted (map (\<lambda>r. val_key (cell r k)) (rows fr))"
    by blast
  have k0: "k = 0" using k by simp
  have c1: "columns fr = [''concord'']" using col by simp
  have c2: "length (rows fr) = ?n" using lr lc by simp
  have lir: "length (index fr) = length (rows fr)" using li lr by simp
  have a1: "map fst (zip (index fr) (rows fr)) = index fr" using lir by (rule map_fst_zip)
  have a2: "map fst (zip (index ?F) (rows ?F)) = index ?F" using lF by (rule map_fst_zip)
  have b1: "map snd (zip (index fr) (rows fr)) = rows fr" using lir by (rule map_snd_zip)
  have b2: "map snd (zip (index ?F) (rows ?F)) = rows ?F" using lF by (rule map_snd_zip)
  have "image_mset fst (mset (zip (index fr) (rows fr))) = image_mset fst (mset (zip (index ?F) (rows ?F)))"
    using ms by simp
  then have "mset (map fst (zip (index fr) (rows fr))) = mset (map fst (zip (index ?F) (rows ?F)))"
    by (simp only: mset_map)
  then have "mset (index fr) = mset (index ?F)" unfolding a1 a2 .
  then have c3: "mset (index fr) = mset (map PairV (p_pairs pred))" by simp
  have ms': "mset (zip (index fr) (rows fr)) = mset (zip (map PairV (p_pairs pred)) (map (\<lambda>c. [c]) concords))"
    using ms by simp
  have conc: "\<And>c. c \<in> set concords \<Longrightarrow> c = NaN \<or> (\<exists>x. c = Float x)"
  proof -
    fix c assume "c \<in> set concords"
    then have "Inr c \<in> set (map (pair_concord ext part0 part1 part2) [0..<?n])"
      using cs by simp
    then obtain i where "pair_concord ext part0 part1 part2 i = Inr c" by auto
    then show "c = NaN \<or> (\<exists>x. c = Float x)" by (rule pair_concord_cases)
  qed
  have "image_mset snd (mset (zip (index fr) (rows fr))) = image_mset snd (mset (zip (index ?F) (rows ?F)))"
    using ms by simp
  then have "mset (map snd (zip (index fr) (rows fr))) = mset (map snd (zip (index ?F) (rows ?F)))"
    by (simp only: mset_map)
  then have "mset (rows fr) = mset (rows ?F)" unfolding b1 b2 .
  then have "mset (rows fr) = mset (map (\<lambda>c. [c]) concords)" by simp
  then have "set_mset (mset (rows fr)) = set_mset (mset (map (\<lambda>c. [c]) concords))" by simp
  then have "set (rows fr) = set (map (\<lambda>c. [c]) concords)" by (simp only: set_mset_mset)
  then have c5: "\<forall>r \<in> set (rows fr). \<exists>c. r = [c] \<and> (c = NaN \<or> (\<exists>x. c = Float x))"
    using conc by auto
  have mono: "\<And>i j. i < j \<Longrightarrow> j < length (rows fr) \<Longrightarrow>
      val_key (cell (rows fr ! i) 0) \<le> val_key (cell (rows fr ! j) 0)"
  proof -
    fix i j assume ij: "i < j" "j < length (rows fr)"
    have "sorted (map (\<lambda>r. val_key (cell r 0)) (rows fr))" using so k0 by simp
    then have "map (\<lambda>r. val_key (cell r 0)) (rows fr) ! i \<le> map (\<lambda>r. val_key (cell r 0)) (rows fr) ! j"
      using ij by (intro sorted_nth_mono) simp_all
    then show "val_key (cell (rows fr ! i) 0) \<le> val_key (cell (rows fr ! j) 0)"
      using ij by simp
  qed
  have c6: "\<forall>i j x y. i < j \<and> j < length (rows fr) \<and> rows fr ! i = [Float x] \<and> rows fr ! j = [Float y] \<longrightarrow> x \<le> y"
  proof (intro allI impI)
    fix i j x y
    assume h: "i < j \<and> j < length (rows fr) \<and> rows fr ! i = [Float x] \<and> rows fr ! j = [Float y]"
    then have "val_key (cell (rows fr ! i) 0) \<le> val_key (cell (rows fr ! j) 0)" using mono by blast
    then show "x \<le> y" using h by (simp add: cell_def val_key_def less_eq_prod_def)
  qed
  have c7: "\<forall>i j. i < j \<and> j < length (rows fr) \<and> rows fr ! i = [NaN] \<longrightarrow> rows fr ! j = [NaN]"
  proof (intro allI impI)
    fix i j
    assume h: "i < j \<and> j < length (rows fr) \<and> rows fr ! i = [NaN]"
    then have le: "val_key (cell (rows fr ! i) 0) \<le> val_key (cell (rows fr ! j) 0)" using mono by blast
    from h have "rows fr ! j \<in> set (rows fr)" by simp
    with c5 obtain c where c: "rows fr ! j = [c]" "c = NaN \<or> (\<exists>x. c = Float x)" by blast
    show "rows fr ! j = [NaN]"
    proof (cases "c = NaN")
      case True
      then show ?thesis using c by simp
    next
      case False
      with c obtain x where "c = Float x" by blast
      then show ?thesis using le h c by (simp add: cell_def val_key_def less_eq_prod_def)
    qed
  qed
  have c4: "\<exists>predict part0 part1 part2 concords.
         kmeans ext (map r_x (d_rows data)) = Inr predict
       \<and> region_part ext predict data pred ''validation'' = Inr part0
       \<and> region_part ext predict data pred ''test'' = Inr part1
       \<and> region_part ext predict data pred ''live'' = Inr part2
       \<and> map (pair_concord ext part0 part1 part2) [0..<length (p_pairs pred)] = map Inr concords
       \<and> mset (zip (index fr) (rows fr)) = mset (zip (map PairV (p_pairs pred)) (map (\<lambda>c. [c]) concords))"
    using km p0 p1 p2 cs ms' by blast
  show "columns fr = [''concord'']
   \<and> length (rows fr) = length (p_pairs pred)
   \<and> mset (index fr) = mset (map PairV (p_pairs pred))
   \<and> (\<exists>predict part0 part1 part2 concords.
         kmeans ext (map r_x (d_rows data)) = Inr predict
       \<and> region_part ext predict data pred ''validation'' = Inr part0
       \<and> region_part ext predict data pred ''test'' = Inr part1
       \<and> region_part ext predict data pred ''live'' = Inr part2
       \<and> map (pair_concord ext part0 part1 part2) [0..<length (p_pairs pred)] = map Inr concords
       \<and> mset (zip (index fr) (rows fr)) = mset (zip (map PairV (p_pairs pred)) (map (\<lambda>c. [c]) concords)))
   \<and> (\<forall>r \<in> set (rows fr). \<exists>c. r = [c] \<and> (c = NaN \<or> (\<exists>x. c = Float x)))
   \<and> (\<forall>i j x y. i < j \<and> j < length (rows fr) \<and> rows fr ! i = [Float x] \<and> rows fr ! j = [Float y] \<longrightarrow> x \<le> y)
   \<and> (\<forall>i j. i < j \<and> j < length (rows fr) \<and> rows fr ! i = [NaN] \<longrightarrow> rows fr ! j = [NaN])"
    by (intro conjI c1 c2 c3 c4 c5 c6 c7)
qed

theorem concordance_table_witness:
  "\<exists>fr. concordance sample_env sample_data sample_prediction = Inr fr
     \<and> (columns fr = [''concord'']
   \<and> length (rows fr) = length (p_pairs sample_prediction)
   \<and> mset (index fr) = mset (map PairV (p_pairs sample_prediction))
   \<and> (\<exists>predict part0 part1 part2 concords.
         kmeans sample_env (map r_x (d_rows sample_data)) = Inr predict
       \<and> region_part sample_env predict sample_data sample_prediction ''validation'' = Inr part0
       \<and> region_part sample_env predict sample_data sample_prediction ''test'' = Inr part1
       \<and> region_part sample_env predict sample_data sample_prediction ''live'' = Inr part2
       \<and> map (pair_concord sample_env part0 part1 part2) [0..<length (p_pairs sample_prediction)] = map Inr concords
       \<and> mset (zip (index fr) (rows fr)) = mset (zip (map PairV (p_pairs sample_prediction)) (map (\<lambda>c. [c]) concords)))
   \<and> (\<forall>r \<in> set (rows fr). \<exists>c. r = [c] \<and> (c = NaN \<or> (\<exists>x. c = Float x)))
   \<and> (\<forall>i j x y. i < j \<and> j < length (rows fr) \<and> rows fr ! i = [Float x] \<and> rows fr ! j = [Float y] \<longrightarrow> x \<le> y)
   \<and> (\<forall>i j. i < j \<and> j < length (rows fr) \<and> rows fr ! i = [NaN] \<longrightarrow> rows fr ! j = [NaN]))
     \<and> fr = \<lparr>index = [PairV (''m'', TInt 1), PairV (''n'', TInt 2)], columns = [''concord''],
              rows = [[Float 0], [Float (3 / 4)]]\<rparr>"
proof -
  let ?F = "\<lparr>index = [PairV (''m'', TInt 1), PairV (''n'', TInt 2)], columns = [''concord''],
              rows = [[Float 0], [Float (3 / 4)]]\<rparr>"
  have run: "concordance sample_env sample_data sample_prediction = Inr ?F"
    by (rule sample_concordance)
  note inst = concordance_table [of sample_env sample_data sample_prediction ?F, THEN mp, OF run]
  show ?thesis
    by (rule exI [of _ ?F]) (rule conjI [OF run conjI [OF inst refl]])
qed

end
